theory Spec2Isabelle
  imports Complex_Main "HOL-Library.Sublist"
begin

section \<open>The Redshift reaper: data, service client and observable events\<close>

text \<open>
  The module \<^verbatim>\<open>nuke/database/redshift.py\<close> holds one class, \<^verbatim>\<open>NukeRedshift\<close>, whose
  methods enumerate four kinds of Redshift resources through a paginated listing and delete
  them one by one. Everything the methods do is a call on the service client, a
  \<^verbatim>\<open>print\<close>, or a call of the error reporting function, so a run is described by the
  chronological list of these events together with the exception, if any, that left the
  method. The constructor, which connects to the service and probes it, takes no part in
  the methods below and is left out.

  Timestamps are Python floats obtained from \<^verbatim>\<open>datetime.timestamp()\<close>; the only operation
  on them is the comparison \<^verbatim>\<open><\<close>, which on finite floats is the order of the numbers
  they denote. They are modelled as \<^typ>\<open>real\<close>.
\<close>

subsection \<open>Exceptions\<close>

text \<open>
  The \<^verbatim>\<open>except\<close> clauses of the module name \<^verbatim>\<open>ClientError\<close> only. Every other exception a
  client call may raise (for example \<^verbatim>\<open>EndpointConnectionError\<close>, which is not a
  \<^verbatim>\<open>ClientError\<close>) is \<open>OtherException\<close>. The string is the exception's message.
\<close>

datatype exc = ClientError string | OtherException string

subsection \<open>Resources as returned by the listing calls\<close>

record cluster =
  ClusterIdentifier :: string
  ClusterCreateTime :: real

record snapshot =
  SnapshotIdentifier :: string
  SnapshotCreateTime :: real

record subnet_group =
  ClusterSubnetGroupName :: string

record parameter_group =
  ParameterGroupName :: string

subsection \<open>Pagination\<close>

text \<open>
  \<^verbatim>\<open>paginator.paginate()\<close> is an iterator of pages. Each step either delivers a page,
  ends the iteration, or raises (the request for the next page failed).
\<close>

datatype 'a page_iterator =
    Exhausted
  | PageError exc
  | Page "'a list" "'a page_iterator"

text \<open>The items of all pages delivered before the iteration ends or fails, in order.\<close>

fun listed :: "'a page_iterator \<Rightarrow> 'a list" where
  "listed Exhausted = []"
| "listed (PageError e) = []"
| "listed (Page xs nxt) = xs @ listed nxt"

fun page_failure :: "'a page_iterator \<Rightarrow> exc option" where
  "page_failure Exhausted = None"
| "page_failure (PageError e) = Some e"
| "page_failure (Page xs nxt) = page_failure nxt"

subsection \<open>The service client\<close>

text \<open>
  The client handle \<^verbatim>\<open>self.redshift\<close>. The responses of the service are what the run is
  given: the four paginated listings, the tag listing of a resource (a list of
  \<^verbatim>\<open>Key\<close>/\<^verbatim>\<open>Value\<close> pairs, or an exception) and, for each delete call, the exception it
  raises (\<open>None\<close> when it succeeds).
\<close>

record client =
  describe_clusters :: "cluster page_iterator"
  describe_cluster_snapshots :: "snapshot page_iterator"
  describe_cluster_subnet_groups :: "subnet_group page_iterator"
  describe_cluster_parameter_groups :: "parameter_group page_iterator"
  list_tags_for_resource :: "string \<Rightarrow> exc + (string \<times> string) list"
  delete_cluster :: "string \<Rightarrow> exc option"
  delete_cluster_snapshot :: "string \<Rightarrow> exc option"
  delete_cluster_subnet_group :: "string \<Rightarrow> exc option"
  delete_cluster_parameter_group :: "string \<Rightarrow> exc option"

subsection \<open>Events and outcomes\<close>

datatype event =
    CallListTagsForResource string
  | CallDeleteCluster string
  | CallDeleteClusterSnapshot string
  | CallDeleteClusterSubnetGroup string
  | CallDeleteClusterParameterGroup string
  | Print string
  | Reported string string exc

text \<open>What a method call did, in order, and the exception that left it (\<open>None\<close>: it returned).\<close>

type_synonym outcome = "event list \<times> exc option"

subsection \<open>Generators\<close>

text \<open>
  The \<^verbatim>\<open>list_*\<close> methods are generators: the consumer's loop body runs between two
  \<^verbatim>\<open>yield\<close>s. A generator is the sequence of what it does when it is driven to its end: it
  yields a value, performs an event, raises, or stops.
\<close>

datatype 'a generator =
    StopIteration
  | Raise exc
  | Yield 'a "'a generator"
  | Emit event "'a generator"

fun emit :: "event list \<Rightarrow> 'a generator \<Rightarrow> 'a generator" where
  "emit [] g = g"
| "emit (ev # evs) g = Emit ev (emit evs g)"

text \<open>The values, the events and the final exception of a generator driven to its end.\<close>

fun yields :: "'a generator \<Rightarrow> 'a list" where
  "yields StopIteration = []"
| "yields (Raise e) = []"
| "yields (Yield x g) = x # yields g"
| "yields (Emit ev g) = yields g"

fun effects :: "'a generator \<Rightarrow> event list" where
  "effects StopIteration = []"
| "effects (Raise e) = []"
| "effects (Yield x g) = effects g"
| "effects (Emit ev g) = ev # effects g"

fun raised :: "'a generator \<Rightarrow> exc option" where
  "raised StopIteration = None"
| "raised (Raise e) = Some e"
| "raised (Yield x g) = raised g"
| "raised (Emit ev g) = raised g"

text \<open>
  \<^verbatim>\<open>for page in paginator.paginate(): for x in page[...]: body\<close> inside a generator: the
  body of the inner loop receives the item and the rest of the generator.
\<close>

fun for_items :: "('a \<Rightarrow> 'b generator \<Rightarrow> 'b generator) \<Rightarrow> 'a list \<Rightarrow> 'b generator \<Rightarrow> 'b generator" where
  "for_items body [] rest = rest"
| "for_items body (x # xs) rest = body x (for_items body xs rest)"

fun for_pages :: "('a \<Rightarrow> 'b generator \<Rightarrow> 'b generator) \<Rightarrow> 'a page_iterator \<Rightarrow> 'b generator" where
  "for_pages body Exhausted = StopIteration"
| "for_pages body (PageError e) = Raise e"
| "for_pages body (Page xs nxt) = for_items body xs (for_pages body nxt)"

text \<open>
  \<^verbatim>\<open>for x in generator: body\<close> in a method: an exception of the body, or of the generator,
  leaves the loop.
\<close>

fun for_each :: "('a \<Rightarrow> outcome) \<Rightarrow> 'a generator \<Rightarrow> outcome" where
  "for_each body StopIteration = ([], None)"
| "for_each body (Raise e) = ([], Some e)"
| "for_each body (Emit ev g) = (ev # fst (for_each body g), snd (for_each body g))"
| "for_each body (Yield x g) =
     (case body x of
        (evs, Some e) \<Rightarrow> (evs, Some e)
      | (evs, None) \<Rightarrow> (evs @ fst (for_each body g), snd (for_each body g)))"

text \<open>Two statements in sequence: the second runs only when the first returned.\<close>

definition and_then :: "outcome \<Rightarrow> outcome \<Rightarrow> outcome" where
  "and_then a b =
     (case a of
        (evs, Some e) \<Rightarrow> (evs, Some e)
      | (evs, None) \<Rightarrow> (evs @ fst b, snd b))"

section \<open>The methods of \<^verbatim>\<open>NukeRedshift\<close>\<close>

subsection \<open>Error reporting\<close>

text \<open>
  Modelled from the spec: \<^verbatim>\<open>nuke.exceptions.nuke_exceptions\<close> is imported and not part of the
  module. The specification describes it as a logging sink that, given a resource-kind
  label, an identifier and an error, records a failure message; it is the event \<open>Reported\<close>.
\<close>

definition nuke_exceptions :: "string \<Rightarrow> string \<Rightarrow> exc \<Rightarrow> event list" where
  "nuke_exceptions label ident e = [Reported label ident e]"

subsection \<open>Tag matching\<close>

text \<open>\<^verbatim>\<open>{tag["Key"]: tag["Value"] for tag in tags["TaggedResources"]}\<close>: a later pair wins.\<close>

fun tag_dict :: "(string \<times> string) list \<Rightarrow> (string \<rightharpoonup> string)" where
  "tag_dict [] = Map.empty"
| "tag_dict ((k, v) # tags) = (\<lambda>x. case tag_dict tags x of Some w \<Rightarrow> Some w | None \<Rightarrow> if x = k then Some v else None)"

text \<open>
  \<^verbatim>\<open>for key, value in required_tags.items(): if tag_dict.get(key) != value: return False\<close>
  followed by \<^verbatim>\<open>return True\<close>.
\<close>

fun all_items_match :: "(string \<rightharpoonup> string) \<Rightarrow> (string \<times> string) list \<Rightarrow> bool" where
  "all_items_match d [] = True"
| "all_items_match d ((key, val) # kvs) =
     (if d key \<noteq> Some val then False else all_items_match d kvs)"

definition cluster_has_required_tags ::
  "client \<Rightarrow> cluster \<Rightarrow> (string \<times> string) list \<Rightarrow> event list \<times> (exc + bool)" where
  "cluster_has_required_tags c cl required_tags =
     (case list_tags_for_resource c (ClusterIdentifier cl) of
        Inr tags \<Rightarrow>
          ([CallListTagsForResource (ClusterIdentifier cl)],
           Inr (all_items_match (tag_dict tags) required_tags))
      | Inl (ClientError m) \<Rightarrow>
          ([CallListTagsForResource (ClusterIdentifier cl),
            Print (''Failed to get tags for Redshift cluster '' @ ClusterIdentifier cl @ '': '' @ m)],
           Inr False)
      | Inl (OtherException m) \<Rightarrow>
          ([CallListTagsForResource (ClusterIdentifier cl)], Inl (OtherException m)))"

subsection \<open>Listing\<close>

text \<open>
  The condition \<^verbatim>\<open>required_tags and not self._cluster_has_required_tags(cluster, required_tags)\<close>.
  \<^verbatim>\<open>required_tags\<close> is \<^verbatim>\<open>None\<close> or a dictionary (its items in order); \<^verbatim>\<open>None\<close> and the empty
  dictionary are false, and then \<^verbatim>\<open>and\<close> does not evaluate its right operand.
\<close>

definition skip_cluster ::
  "client \<Rightarrow> cluster \<Rightarrow> (string \<times> string) list option \<Rightarrow> event list \<times> (exc + bool)" where
  "skip_cluster c cl required_tags =
     (case required_tags of
        None \<Rightarrow> ([], Inr False)
      | Some kvs \<Rightarrow>
          if kvs = [] then ([], Inr False)
          else (case cluster_has_required_tags c cl kvs of
                  (evs, Inl e) \<Rightarrow> (evs, Inl e)
                | (evs, Inr has) \<Rightarrow> (evs, Inr (\<not> has))))"

definition list_clusters_item ::
  "client \<Rightarrow> real \<Rightarrow> (string \<times> string) list option \<Rightarrow> cluster \<Rightarrow> string generator \<Rightarrow> string generator" where
  "list_clusters_item c time_delete required_tags cl rest =
     (if ClusterCreateTime cl < time_delete then
        (case skip_cluster c cl required_tags of
           (evs, Inl e) \<Rightarrow> emit evs (Raise e)
         | (evs, Inr True) \<Rightarrow> emit evs rest
         | (evs, Inr False) \<Rightarrow> emit evs (Yield (ClusterIdentifier cl) rest))
      else rest)"

definition list_clusters ::
  "client \<Rightarrow> real \<Rightarrow> (string \<times> string) list option \<Rightarrow> string generator" where
  "list_clusters c time_delete required_tags =
     for_pages (list_clusters_item c time_delete required_tags) (describe_clusters c)"

definition list_snapshots :: "client \<Rightarrow> real \<Rightarrow> string generator" where
  "list_snapshots c time_delete =
     for_pages
       (\<lambda>sn rest. if SnapshotCreateTime sn < time_delete
                   then Yield (SnapshotIdentifier sn) rest else rest)
       (describe_cluster_snapshots c)"

definition list_subnet :: "client \<Rightarrow> string generator" where
  "list_subnet c =
     for_pages (\<lambda>subnet rest. Yield (ClusterSubnetGroupName subnet) rest)
       (describe_cluster_subnet_groups c)"

definition list_cluster_params :: "client \<Rightarrow> string generator" where
  "list_cluster_params c =
     for_pages (\<lambda>param rest. Yield (ParameterGroupName param) rest)
       (describe_cluster_parameter_groups c)"

subsection \<open>Deleting\<close>

text \<open>
  The constant keyword argument \<^verbatim>\<open>SkipFinalClusterSnapshot=True\<close> of \<^verbatim>\<open>delete_cluster\<close> is not
  recorded in the event. The body shared by the four deleting loops:
  \<^verbatim>\<open>try: <delete call>; print(message.format(x)) except ClientError as exc: nuke_exceptions(label, x, exc)\<close>.
\<close>

definition try_delete ::
  "(string \<Rightarrow> exc option) \<Rightarrow> (string \<Rightarrow> event) \<Rightarrow> string \<Rightarrow> string \<Rightarrow> string \<Rightarrow> outcome" where
  "try_delete delete_call call message label x =
     (case delete_call x of
        None \<Rightarrow> ([call x, Print (message @ x)], None)
      | Some (ClientError m) \<Rightarrow> (call x # nuke_exceptions label x (ClientError m), None)
      | Some (OtherException m) \<Rightarrow> ([call x], Some (OtherException m)))"

definition nuke_clusters :: "client \<Rightarrow> real \<Rightarrow> (string \<times> string) list option \<Rightarrow> outcome" where
  "nuke_clusters c time_delete required_tags =
     for_each
       (try_delete (delete_cluster c) CallDeleteCluster
          ''Nuke redshift cluster '' ''redshift cluster'')
       (list_clusters c time_delete required_tags)"

definition nuke_snapshots :: "client \<Rightarrow> real \<Rightarrow> outcome" where
  "nuke_snapshots c time_delete =
     for_each
       (try_delete (delete_cluster_snapshot c) CallDeleteClusterSnapshot
          ''Nuke redshift snapshot '' ''redshift snapshot'')
       (list_snapshots c time_delete)"

definition nuke_subnets :: "client \<Rightarrow> outcome" where
  "nuke_subnets c =
     for_each
       (try_delete (delete_cluster_subnet_group c) CallDeleteClusterSubnetGroup
          ''Nuke redshift subnet '' ''redshift subnet'')
       (list_subnet c)"

definition nuke_param_groups :: "client \<Rightarrow> outcome" where
  "nuke_param_groups c =
     for_each
       (try_delete (delete_cluster_parameter_group c) CallDeleteClusterParameterGroup
          ''Nuke redshift param '' ''redshift param'')
       (list_cluster_params c)"

subsection \<open>The orchestrator\<close>

definition nuke :: "client \<Rightarrow> real \<Rightarrow> (string \<times> string) list option \<Rightarrow> outcome" where
  "nuke c older_than_seconds required_tags =
     and_then (nuke_clusters c older_than_seconds required_tags)
       (and_then (nuke_snapshots c older_than_seconds)
          (and_then (nuke_subnets c) (nuke_param_groups c)))"

section \<open>Observing a run\<close>

text \<open>The delete calls of a trace, each with the kind of resource it is issued for.\<close>

datatype kind = Clusters | Snapshots | SubnetGroups | ParameterGroups

fun delete_call :: "event \<Rightarrow> (kind \<times> string) option" where
  "delete_call (CallDeleteCluster i) = Some (Clusters, i)"
| "delete_call (CallDeleteClusterSnapshot i) = Some (Snapshots, i)"
| "delete_call (CallDeleteClusterSubnetGroup i) = Some (SubnetGroups, i)"
| "delete_call (CallDeleteClusterParameterGroup i) = Some (ParameterGroups, i)"
| "delete_call (CallListTagsForResource i) = None"
| "delete_call (Print s) = None"
| "delete_call (Reported l i e) = None"

fun delete_calls :: "event list \<Rightarrow> (kind \<times> string) list" where
  "delete_calls [] = []"
| "delete_calls (ev # evs) =
     (case delete_call ev of Some d \<Rightarrow> d # delete_calls evs | None \<Rightarrow> delete_calls evs)"

definition tolerated :: "exc option \<Rightarrow> bool" where
  "tolerated r = (case r of Some (OtherException m) \<Rightarrow> False | _ \<Rightarrow> True)"

text \<open>
  For one listed cluster: the events of evaluating the tag condition, whether the cluster is
  yielded, and whether its tag listing raises something other than a \<^verbatim>\<open>ClientError\<close>.
\<close>

definition tag_events :: "client \<Rightarrow> real \<Rightarrow> (string \<times> string) list option \<Rightarrow> cluster \<Rightarrow> event list" where
  "tag_events c time_delete required_tags cl =
     (if ClusterCreateTime cl < time_delete then fst (skip_cluster c cl required_tags) else [])"

definition selects_cluster :: "client \<Rightarrow> real \<Rightarrow> (string \<times> string) list option \<Rightarrow> cluster \<Rightarrow> bool" where
  "selects_cluster c time_delete required_tags cl =
     (ClusterCreateTime cl < time_delete \<and> snd (skip_cluster c cl required_tags) = Inr False)"

definition tag_fetch_raises :: "client \<Rightarrow> cluster \<Rightarrow> bool" where
  "tag_fetch_raises c cl =
     (case list_tags_for_resource c (ClusterIdentifier cl) of
        Inl (OtherException m) \<Rightarrow> True | _ \<Rightarrow> False)"


section \<open>An example service\<close>

text \<open>
  Four clusters on two pages, three snapshots, two subnet groups on two pages and two
  parameter groups. The tag listing of cluster \<open>c\<close> fails with a \<^verbatim>\<open>ClientError\<close>; one delete
  call of each kind fails with a \<^verbatim>\<open>ClientError\<close>.
\<close>

definition fleet :: client where
  "fleet =
     \<lparr> describe_clusters =
         Page [\<lparr>ClusterIdentifier = ''a'', ClusterCreateTime = 500\<rparr>,
               \<lparr>ClusterIdentifier = ''b'', ClusterCreateTime = 1500\<rparr>]
           (Page [\<lparr>ClusterIdentifier = ''c'', ClusterCreateTime = 500\<rparr>,
                  \<lparr>ClusterIdentifier = ''d'', ClusterCreateTime = 700\<rparr>] Exhausted),
       describe_cluster_snapshots =
         Page [\<lparr>SnapshotIdentifier = ''s1'', SnapshotCreateTime = 100\<rparr>,
               \<lparr>SnapshotIdentifier = ''s2'', SnapshotCreateTime = 2000\<rparr>,
               \<lparr>SnapshotIdentifier = ''s3'', SnapshotCreateTime = 300\<rparr>] Exhausted,
       describe_cluster_subnet_groups =
         Page [\<lparr>ClusterSubnetGroupName = ''n1''\<rparr>]
           (Page [\<lparr>ClusterSubnetGroupName = ''n2''\<rparr>] Exhausted),
       describe_cluster_parameter_groups =
         Page [\<lparr>ParameterGroupName = ''p1''\<rparr>, \<lparr>ParameterGroupName = ''p2''\<rparr>] Exhausted,
       list_tags_for_resource =
         (\<lambda>i. if i = ''a'' then Inr [(''env'', ''prod'')]
              else if i = ''c'' then Inl (ClientError ''Throttling'')
              else if i = ''d'' then Inr [(''env'', ''dev'')]
              else Inr []),
       delete_cluster = (\<lambda>i. if i = ''c'' then Some (ClientError ''InvalidClusterState'') else None),
       delete_cluster_snapshot = (\<lambda>i. if i = ''s1'' then Some (ClientError ''InvalidClusterSnapshotState'') else None),
       delete_cluster_subnet_group = (\<lambda>i. if i = ''n1'' then Some (ClientError ''InvalidClusterSubnetGroupState'') else None),
       delete_cluster_parameter_group = (\<lambda>i. if i = ''p1'' then Some (ClientError ''InvalidClusterParameterGroupState'') else None) \<rparr>"



text \<open>The delete calls of one kind in a trace.\<close>

definition deleted :: "kind \<Rightarrow> event list \<Rightarrow> string list" where
  "deleted k tr = map snd (filter (\<lambda>d. fst d = k) (delete_calls tr))"

text \<open>
  The service of the end-to-end example with tags of the specification: three clusters
  created at 500, \<open>a\<close> tagged \<open>env = prod\<close>, \<open>b\<close> tagged \<open>env = dev\<close>, \<open>c\<close> without tags.
\<close>

definition example_8 :: client where
  "example_8 =
     \<lparr> describe_clusters =
         Page [\<lparr>ClusterIdentifier = ''a'', ClusterCreateTime = 500\<rparr>,
               \<lparr>ClusterIdentifier = ''b'', ClusterCreateTime = 500\<rparr>,
               \<lparr>ClusterIdentifier = ''c'', ClusterCreateTime = 500\<rparr>] Exhausted,
       describe_cluster_snapshots = Exhausted,
       describe_cluster_subnet_groups = Exhausted,
       describe_cluster_parameter_groups = Exhausted,
       list_tags_for_resource =
         (\<lambda>i. if i = ''a'' then Inr [(''env'', ''prod'')]
              else if i = ''b'' then Inr [(''env'', ''dev'')]
              else Inr []),
       delete_cluster = (\<lambda>i. None),
       delete_cluster_snapshot = (\<lambda>i. None),
       delete_cluster_subnet_group = (\<lambda>i. None),
       delete_cluster_parameter_group = (\<lambda>i. None) \<rparr>"

text \<open>
  A service whose request for the second page of clusters fails, with one snapshot, one
  subnet group and one parameter group that could be deleted.
\<close>

definition outage :: client where
  "outage =
     \<lparr> describe_clusters =
         Page [\<lparr>ClusterIdentifier = ''a'', ClusterCreateTime = 500\<rparr>]
           (PageError (ClientError ''Throttling'')),
       describe_cluster_snapshots =
         Page [\<lparr>SnapshotIdentifier = ''s1'', SnapshotCreateTime = 100\<rparr>] Exhausted,
       describe_cluster_subnet_groups = Page [\<lparr>ClusterSubnetGroupName = ''n1''\<rparr>] Exhausted,
       describe_cluster_parameter_groups = Page [\<lparr>ParameterGroupName = ''p1''\<rparr>] Exhausted,
       list_tags_for_resource = (\<lambda>i. Inr []),
       delete_cluster = (\<lambda>i. None),
       delete_cluster_snapshot = (\<lambda>i. None),
       delete_cluster_subnet_group = (\<lambda>i. None),
       delete_cluster_parameter_group = (\<lambda>i. None) \<rparr>"

section \<open>Properties of generators and loops\<close>

lemmas run_defs = nuke_def and_then_def nuke_clusters_def nuke_snapshots_def nuke_subnets_def
  nuke_param_groups_def try_delete_def nuke_exceptions_def list_clusters_def list_snapshots_def
  list_subnet_def list_cluster_params_def list_clusters_item_def skip_cluster_def
  cluster_has_required_tags_def

lemma delete_calls_append: "delete_calls (xs @ ys) = delete_calls xs @ delete_calls ys"
  by (induction xs) (auto split: option.splits)

lemma delete_calls_mem: "d \<in> set (delete_calls tr) \<longleftrightarrow> (\<exists>ev \<in> set tr. delete_call ev = Some d)"
  by (induction tr) (auto split: option.splits)

lemma yields_emit: "yields (emit evs g) = yields g"
  by (induction evs) auto

lemma effects_emit: "effects (emit evs g) = evs @ effects g"
  by (induction evs) auto

lemma raised_emit: "raised (emit evs g) = raised g"
  by (induction evs) auto

lemma try_delete_calls:
  assumes "\<And>y. delete_call (call y) = Some (k, y)"
  shows "delete_calls (fst (try_delete d call msg label x)) = [(k, x)]"
  using assms by (simp add: try_delete_def nuke_exceptions_def split: option.splits exc.splits)

lemma try_delete_tolerated:
  "tolerated (d x) \<Longrightarrow> snd (try_delete d call msg label x) = None"
  by (simp add: try_delete_def tolerated_def split: option.splits exc.splits)

lemma try_delete_returns:
  "snd (try_delete d call msg label x) = None \<Longrightarrow> tolerated (d x)"
  by (simp add: try_delete_def tolerated_def split: option.splits exc.splits)

lemma for_each_calls_prefix:
  assumes "\<And>x. delete_calls (fst (body x)) = [(k, x)]"
    and "delete_calls (effects g) = []"
  shows "prefix (delete_calls (fst (for_each body g))) (map (Pair k) (yields g))"
  using assms(2)
proof (induction g)
  case (Yield x g)
  then show ?case using assms(1)[of x]
    by (cases "body x") (auto simp: delete_calls_append split: option.splits)
next
  case (Emit ev g)
  then show ?case by (auto split: option.splits)
qed auto

lemma for_each_calls_all:
  assumes "\<And>x. delete_calls (fst (body x)) = [(k, x)]"
    and "delete_calls (effects g) = []"
    and "\<forall>x \<in> set (yields g). snd (body x) = None"
  shows "delete_calls (fst (for_each body g)) = map (Pair k) (yields g) \<and> snd (for_each body g) = raised g"
  using assms(2,3)
proof (induction g)
  case (Yield x g)
  then show ?case using assms(1)[of x]
    by (cases "body x") (auto simp: delete_calls_append split: option.splits)
next
  case (Emit ev g)
  then show ?case by (auto split: option.splits)
qed auto


lemma for_items_regular:
  assumes "\<forall>x \<in> set xs. \<forall>rest. body x rest = emit (E x) (if K x then Yield (F x) rest else rest)"
  shows "yields (for_items body xs g) = map F (filter K xs) @ yields g"
    and "effects (for_items body xs g) = concat (map E xs) @ effects g"
    and "raised (for_items body xs g) = raised g"
  using assms by (induction xs) (auto simp: yields_emit effects_emit raised_emit)

lemma for_pages_regular:
  assumes "\<forall>x \<in> set (listed p). \<forall>rest. body x rest = emit (E x) (if K x then Yield (F x) rest else rest)"
  shows "yields (for_pages body p) = map F (filter K (listed p))"
    and "effects (for_pages body p) = concat (map E (listed p))"
    and "raised (for_pages body p) = page_failure p"
  using assms
proof (induction p)
  case (Page xs p)
  {
    case 1
    then show ?case
      using for_items_regular(1)[of xs body E K F "for_pages body p"] Page.IH(1) by simp
  next
    case 2
    then show ?case
      using for_items_regular(2)[of xs body E K F "for_pages body p"] Page.IH(2) by simp
  next
    case 3
    then show ?case
      using for_items_regular(3)[of xs body E K F "for_pages body p"] Page.IH(3) by simp
  }
qed auto

lemma for_items_prefix:
  assumes "\<forall>x \<in> set xs. \<forall>rest. body x rest = emit (E x) (if K x then Yield (F x) rest else rest)
             \<or> (\<exists>e. body x rest = emit (E x) (Raise e))"
    and "prefix (yields g) ys"
  shows "prefix (yields (for_items body xs g)) (map F (filter K xs) @ ys)"
  using assms
proof (induction xs)
  case Nil
  then show ?case by simp
next
  case (Cons x xs)
  let ?rest = "for_items body xs g"
  have ih: "prefix (yields ?rest) (map F (filter K xs) @ ys)"
    using Cons by simp
  from Cons.prems(1) have "body x ?rest = emit (E x) (if K x then Yield (F x) ?rest else ?rest)
      \<or> (\<exists>e. body x ?rest = emit (E x) (Raise e))" by simp
  then show ?case using ih by (auto simp: yields_emit)
qed

lemma for_pages_prefix:
  assumes "\<forall>x \<in> set (listed p). \<forall>rest. body x rest = emit (E x) (if K x then Yield (F x) rest else rest)
             \<or> (\<exists>e. body x rest = emit (E x) (Raise e))"
  shows "prefix (yields (for_pages body p)) (map F (filter K (listed p)))"
  using assms
proof (induction p)
  case (Page xs p)
  then have "prefix (yields (for_pages body p)) (map F (filter K (listed p)))" by simp
  with Page.prems show ?case using for_items_prefix[of xs body E K F "for_pages body p"]
    by simp
qed auto



lemma list_clusters_item_shape:
  "list_clusters_item c t rt cl rest =
      emit (tag_events c t rt cl)
        (if selects_cluster c t rt cl then Yield (ClusterIdentifier cl) rest else rest)
   \<or> (\<exists>e. list_clusters_item c t rt cl rest = emit (tag_events c t rt cl) (Raise e))"
  by (cases "skip_cluster c cl rt")
     (auto simp: list_clusters_item_def tag_events_def selects_cluster_def split: sum.splits bool.splits)

lemma skip_cluster_falsy:
  "rt = None \<or> rt = Some [] \<Longrightarrow> skip_cluster c cl rt = ([], Inr False)"
  by (auto simp: skip_cluster_def)

lemma skip_cluster_no_raise:
  "\<not> tag_fetch_raises c cl \<Longrightarrow> \<exists>b. snd (skip_cluster c cl rt) = Inr b"
  by (auto simp: skip_cluster_def cluster_has_required_tags_def tag_fetch_raises_def
      split: option.splits sum.splits exc.splits)

lemma list_clusters_item_regular:
  assumes "ClusterCreateTime cl < t \<Longrightarrow> \<exists>b. snd (skip_cluster c cl rt) = Inr b"
  shows "list_clusters_item c t rt cl rest =
      emit (tag_events c t rt cl)
        (if selects_cluster c t rt cl then Yield (ClusterIdentifier cl) rest else rest)"
  using assms
  by (cases "skip_cluster c cl rt")
     (auto simp: list_clusters_item_def tag_events_def selects_cluster_def split: sum.splits bool.splits)

lemma skip_cluster_events:
  "ev \<in> set (fst (skip_cluster c cl rt)) \<Longrightarrow> delete_call ev = None"
  by (auto simp: skip_cluster_def cluster_has_required_tags_def
      split: option.splits sum.splits exc.splits if_splits)

lemma delete_calls_none: "(\<forall>ev \<in> set tr. delete_call ev = None) \<Longrightarrow> delete_calls tr = []"
  by (induction tr) auto

lemma tag_events_calls: "delete_calls (tag_events c t rt cl) = []"
  by (rule delete_calls_none) (auto simp: tag_events_def dest: skip_cluster_events)

lemma for_items_effects_calls:
  assumes "\<forall>x \<in> set xs. \<forall>rest. body x rest = emit (E x) (if K x then Yield (F x) rest else rest)
             \<or> (\<exists>e. body x rest = emit (E x) (Raise e))"
    and "\<And>x. delete_calls (E x) = []"
    and "delete_calls (effects g) = []"
  shows "delete_calls (effects (for_items body xs g)) = []"
  using assms(1)
proof (induction xs)
  case Nil
  then show ?case using assms(3) by simp
next
  case (Cons x xs)
  let ?rest = "for_items body xs g"
  have ih: "delete_calls (effects ?rest) = []" using Cons by simp
  from Cons.prems have "body x ?rest = emit (E x) (if K x then Yield (F x) ?rest else ?rest)
      \<or> (\<exists>e. body x ?rest = emit (E x) (Raise e))" by simp
  then show ?case using ih assms(2)[of x] by (auto simp: effects_emit delete_calls_append)
qed

lemma for_pages_effects_calls:
  assumes "\<forall>x \<in> set (listed p). \<forall>rest. body x rest = emit (E x) (if K x then Yield (F x) rest else rest)
             \<or> (\<exists>e. body x rest = emit (E x) (Raise e))"
    and "\<And>x. delete_calls (E x) = []"
  shows "delete_calls (effects (for_pages body p)) = []"
  using assms(1)
proof (induction p)
  case (Page xs p)
  then have "delete_calls (effects (for_pages body p)) = []" by simp
  with Page.prems show ?case
    using for_items_effects_calls[of xs body E K F "for_pages body p"] assms(2) by simp
qed auto

lemma list_clusters_yields_prefix:
  "prefix (yields (list_clusters c t rt))
     (map ClusterIdentifier (filter (selects_cluster c t rt) (listed (describe_clusters c))))"
  unfolding list_clusters_def
  by (rule for_pages_prefix[where E = "tag_events c t rt"]) (simp add: list_clusters_item_shape)

lemma list_clusters_effects_calls: "delete_calls (effects (list_clusters c t rt)) = []"
  unfolding list_clusters_def
  by (rule for_pages_effects_calls[where E = "tag_events c t rt" and K = "selects_cluster c t rt"
        and F = ClusterIdentifier])
     (simp_all add: list_clusters_item_shape tag_events_calls)

lemma list_clusters_regular:
  assumes "\<forall>cl \<in> set (listed (describe_clusters c)). ClusterCreateTime cl < t \<longrightarrow> (\<exists>b. snd (skip_cluster c cl rt) = Inr b)"
  shows "yields (list_clusters c t rt) =
           map ClusterIdentifier (filter (selects_cluster c t rt) (listed (describe_clusters c)))"
    and "effects (list_clusters c t rt) = concat (map (tag_events c t rt) (listed (describe_clusters c)))"
    and "raised (list_clusters c t rt) = page_failure (describe_clusters c)"
proof -
  have reg: "\<forall>cl \<in> set (listed (describe_clusters c)). \<forall>rest.
      list_clusters_item c t rt cl rest =
        emit (tag_events c t rt cl)
          (if selects_cluster c t rt cl then Yield (ClusterIdentifier cl) rest else rest)"
    using assms by (simp add: list_clusters_item_regular)
  show "yields (list_clusters c t rt) =
           map ClusterIdentifier (filter (selects_cluster c t rt) (listed (describe_clusters c)))"
    unfolding list_clusters_def by (rule for_pages_regular(1)[OF reg])
  show "effects (list_clusters c t rt) = concat (map (tag_events c t rt) (listed (describe_clusters c)))"
    unfolding list_clusters_def by (rule for_pages_regular(2)[OF reg])
  show "raised (list_clusters c t rt) = page_failure (describe_clusters c)"
    unfolding list_clusters_def by (rule for_pages_regular(3)[OF reg])
qed

lemma list_snapshots_regular:
  "yields (list_snapshots c t) =
     map SnapshotIdentifier (filter (\<lambda>sn. SnapshotCreateTime sn < t) (listed (describe_cluster_snapshots c)))"
  "effects (list_snapshots c t) = []"
  "raised (list_snapshots c t) = page_failure (describe_cluster_snapshots c)"
  unfolding list_snapshots_def
  using for_pages_regular[where body = "\<lambda>sn rest. if SnapshotCreateTime sn < t
                   then Yield (SnapshotIdentifier sn) rest else rest"
      and E = "\<lambda>_. []" and K = "\<lambda>sn. SnapshotCreateTime sn < t" and F = SnapshotIdentifier
      and p = "describe_cluster_snapshots c"]
  by simp_all

lemma list_subnet_regular:
  "yields (list_subnet c) = map ClusterSubnetGroupName (listed (describe_cluster_subnet_groups c))"
  "effects (list_subnet c) = []"
  "raised (list_subnet c) = page_failure (describe_cluster_subnet_groups c)"
  unfolding list_subnet_def
  using for_pages_regular[where body = "\<lambda>subnet rest. Yield (ClusterSubnetGroupName subnet) rest"
      and E = "\<lambda>_. []" and K = "\<lambda>_. True" and F = ClusterSubnetGroupName
      and p = "describe_cluster_subnet_groups c"]
  by simp_all

lemma list_cluster_params_regular:
  "yields (list_cluster_params c) = map ParameterGroupName (listed (describe_cluster_parameter_groups c))"
  "effects (list_cluster_params c) = []"
  "raised (list_cluster_params c) = page_failure (describe_cluster_parameter_groups c)"
  unfolding list_cluster_params_def
  using for_pages_regular[where body = "\<lambda>param rest. Yield (ParameterGroupName param) rest"
      and E = "\<lambda>_. []" and K = "\<lambda>_. True" and F = ParameterGroupName
      and p = "describe_cluster_parameter_groups c"]
  by simp_all

lemma for_each_returns:
  "snd (for_each body g) = None \<Longrightarrow> (\<forall>x \<in> set (yields g). snd (body x) = None) \<and> raised g = None"
proof (induction g)
  case (Yield x g)
  then show ?case by (cases "body x") (auto split: option.splits)
qed auto

lemma for_each_raised:
  "raised g \<noteq> None \<Longrightarrow> snd (for_each body g) \<noteq> None"
  using for_each_returns[of body g] by (cases "snd (for_each body g)") auto

lemma and_then_returns: "snd (and_then a b) = None \<longleftrightarrow> snd a = None \<and> snd b = None"
  by (cases a) (auto simp: and_then_def split: option.splits)


lemma and_then_aborts: "snd a \<noteq> None \<Longrightarrow> and_then a b = a"
  by (cases a) (auto simp: and_then_def split: option.splits)

lemma and_then_prefix: "prefix (fst (and_then a b)) (fst a @ fst b)"
  by (cases a) (auto simp: and_then_def split: option.splits)

lemma nuke_clusters_calls_prefix:
  "prefix (delete_calls (fst (nuke_clusters c t rt)))
     (map (Pair Clusters) (yields (list_clusters c t rt)))"
  unfolding nuke_clusters_def
  by (rule for_each_calls_prefix) (simp_all add: try_delete_calls list_clusters_effects_calls)

lemma nuke_snapshots_calls_prefix:
  "prefix (delete_calls (fst (nuke_snapshots c t)))
     (map (Pair Snapshots) (yields (list_snapshots c t)))"
  unfolding nuke_snapshots_def
  by (rule for_each_calls_prefix) (simp_all add: try_delete_calls list_snapshots_regular)

lemma nuke_subnets_calls_prefix:
  "prefix (delete_calls (fst (nuke_subnets c)))
     (map (Pair SubnetGroups) (yields (list_subnet c)))"
  unfolding nuke_subnets_def
  by (rule for_each_calls_prefix) (simp_all add: try_delete_calls list_subnet_regular)

lemma nuke_param_groups_calls_prefix:
  "prefix (delete_calls (fst (nuke_param_groups c)))
     (map (Pair ParameterGroups) (yields (list_cluster_params c)))"
  unfolding nuke_param_groups_def
  by (rule for_each_calls_prefix) (simp_all add: try_delete_calls list_cluster_params_regular)

lemma nuke_clusters_calls_all:
  assumes "\<forall>x \<in> set (yields (list_clusters c t rt)). tolerated (delete_cluster c x)"
  shows "delete_calls (fst (nuke_clusters c t rt)) = map (Pair Clusters) (yields (list_clusters c t rt))
    \<and> snd (nuke_clusters c t rt) = raised (list_clusters c t rt)"
  unfolding nuke_clusters_def using assms
  by (intro for_each_calls_all) (simp_all add: try_delete_calls list_clusters_effects_calls try_delete_tolerated)

lemma nuke_snapshots_calls_all:
  assumes "\<forall>x \<in> set (yields (list_snapshots c t)). tolerated (delete_cluster_snapshot c x)"
  shows "delete_calls (fst (nuke_snapshots c t)) = map (Pair Snapshots) (yields (list_snapshots c t))
    \<and> snd (nuke_snapshots c t) = raised (list_snapshots c t)"
  unfolding nuke_snapshots_def using assms
  by (intro for_each_calls_all) (simp_all add: try_delete_calls list_snapshots_regular(2) try_delete_tolerated)

lemma nuke_subnets_calls_all:
  assumes "\<forall>x \<in> set (yields (list_subnet c)). tolerated (delete_cluster_subnet_group c x)"
  shows "delete_calls (fst (nuke_subnets c)) = map (Pair SubnetGroups) (yields (list_subnet c))
    \<and> snd (nuke_subnets c) = raised (list_subnet c)"
  unfolding nuke_subnets_def using assms
  by (intro for_each_calls_all) (simp_all add: try_delete_calls list_subnet_regular(2) try_delete_tolerated)

lemma nuke_param_groups_calls_all:
  assumes "\<forall>x \<in> set (yields (list_cluster_params c)). tolerated (delete_cluster_parameter_group c x)"
  shows "delete_calls (fst (nuke_param_groups c)) = map (Pair ParameterGroups) (yields (list_cluster_params c))
    \<and> snd (nuke_param_groups c) = raised (list_cluster_params c)"
  unfolding nuke_param_groups_def using assms
  by (intro for_each_calls_all) (simp_all add: try_delete_calls list_cluster_params_regular(2) try_delete_tolerated)

lemma nuke_calls_prefix:
  "prefix (delete_calls (fst (nuke c t rt)))
     (delete_calls (fst (nuke_clusters c t rt)) @ delete_calls (fst (nuke_snapshots c t))
        @ delete_calls (fst (nuke_subnets c)) @ delete_calls (fst (nuke_param_groups c)))"
proof -
  have mono: "\<And>xs ys. prefix xs ys \<Longrightarrow> prefix (delete_calls xs) (delete_calls ys)"
    by (auto simp: prefix_def delete_calls_append)
  have "prefix (fst (nuke c t rt))
     (fst (nuke_clusters c t rt) @ fst (nuke_snapshots c t) @ fst (nuke_subnets c) @ fst (nuke_param_groups c))"
    unfolding nuke_def
    by (meson and_then_prefix prefix_order.trans same_prefix_prefix)
  from mono[OF this] show ?thesis by (simp add: delete_calls_append)
qed

section \<open>Age filter of the cluster listing\<close>

lemma delete_call_cluster: "delete_call ev = Some (Clusters, i) \<longleftrightarrow> ev = CallDeleteCluster i"
  by (cases ev) auto

lemma for_each_events:
  "ev \<in> set (fst (for_each body g)) \<Longrightarrow>
     ev \<in> set (effects g) \<or> (\<exists>x \<in> set (yields g). ev \<in> set (fst (body x)))"
proof (induction g)
  case (Yield x g)
  then show ?case by (cases "body x") (auto split: option.splits)
qed auto

lemma list_clusters_falsy:
  assumes "rt = None \<or> rt = Some []"
  shows "yields (list_clusters c t rt) =
           map ClusterIdentifier (filter (\<lambda>cl. ClusterCreateTime cl < t) (listed (describe_clusters c)))"
    and "effects (list_clusters c t rt) = []"
    and "raised (list_clusters c t rt) = page_failure (describe_clusters c)"
proof -
  have sk: "\<And>cl. skip_cluster c cl rt = ([], Inr False)"
    using assms by (rule skip_cluster_falsy)
  have reg: "\<forall>cl \<in> set (listed (describe_clusters c)).
      ClusterCreateTime cl < t \<longrightarrow> (\<exists>b. snd (skip_cluster c cl rt) = Inr b)"
    by (auto simp: sk)
  have sel: "selects_cluster c t rt = (\<lambda>cl. ClusterCreateTime cl < t)"
    by (rule ext) (simp add: selects_cluster_def sk)
  have ev: "tag_events c t rt = (\<lambda>cl. [])"
    by (rule ext) (simp add: tag_events_def sk)
  show "yields (list_clusters c t rt) =
           map ClusterIdentifier (filter (\<lambda>cl. ClusterCreateTime cl < t) (listed (describe_clusters c)))"
    using list_clusters_regular(1)[OF reg] by (simp add: sel)
  show "effects (list_clusters c t rt) = []"
    using list_clusters_regular(2)[OF reg] by (simp add: ev)
  show "raised (list_clusters c t rt) = page_failure (describe_clusters c)"
    using list_clusters_regular(3)[OF reg] .
qed

text \<open>
  Claim C3. A cluster whose creation timestamp is greater than or equal to the threshold is,
  for every value of \<^verbatim>\<open>required_tags\<close>, never yielded by \<^verbatim>\<open>list_clusters\<close> and never passed
  to the delete operation, neither by \<^verbatim>\<open>nuke_clusters\<close> nor by \<^verbatim>\<open>nuke\<close>. Clusters are named by
  their identifier: if every listed cluster with identifier \<open>i\<close> is that young, \<open>i\<close> is neither
  yielded nor deleted.
\<close>

theorem young_clusters_never_deleted:
  assumes "\<forall>cl \<in> set (listed (describe_clusters c)).
             ClusterIdentifier cl = i \<longrightarrow> time_delete \<le> ClusterCreateTime cl"
  shows "i \<notin> set (yields (list_clusters c time_delete required_tags))
       \<and> CallDeleteCluster i \<notin> set (fst (nuke_clusters c time_delete required_tags))
       \<and> CallDeleteCluster i \<notin> set (fst (nuke c time_delete required_tags))"
proof -
  let ?ys = "yields (list_clusters c time_delete required_tags)"
  have "set ?ys \<subseteq> set (map ClusterIdentifier
          (filter (selects_cluster c time_delete required_tags) (listed (describe_clusters c))))"
    using list_clusters_yields_prefix by (rule set_mono_prefix)
  with assms have not_yielded: "i \<notin> set ?ys"
    by (fastforce simp: selects_cluster_def)
  have "set (delete_calls (fst (nuke_clusters c time_delete required_tags)))
          \<subseteq> set (map (Pair Clusters) ?ys)"
    using nuke_clusters_calls_prefix by (rule set_mono_prefix)
  with not_yielded have no_call: "(Clusters, i) \<notin> set (delete_calls (fst (nuke_clusters c time_delete required_tags)))"
    by auto
  have s: "set (delete_calls (fst (nuke_snapshots c time_delete))) \<subseteq> Pair Snapshots ` UNIV"
    using set_mono_prefix[OF nuke_snapshots_calls_prefix] by auto
  have n: "set (delete_calls (fst (nuke_subnets c))) \<subseteq> Pair SubnetGroups ` UNIV"
    using set_mono_prefix[OF nuke_subnets_calls_prefix] by auto
  have p: "set (delete_calls (fst (nuke_param_groups c))) \<subseteq> Pair ParameterGroups ` UNIV"
    using set_mono_prefix[OF nuke_param_groups_calls_prefix] by auto
  have "(Clusters, i) \<notin> set (delete_calls (fst (nuke c time_delete required_tags)))"
    using set_mono_prefix[OF nuke_calls_prefix, of c time_delete required_tags] no_call s n p
    by auto
  with no_call not_yielded show ?thesis
    by (auto simp: delete_calls_mem delete_call_cluster)
qed

theorem young_clusters_never_deleted_witness:
  "list_all (\<lambda>cl. ClusterIdentifier cl = ''b'' \<longrightarrow> (1000::real) \<le> ClusterCreateTime cl)
     (listed (describe_clusters fleet))
   \<and> ''b'' \<notin> set (yields (list_clusters fleet 1000 (Some [(''env'', ''prod'')])))
   \<and> CallDeleteCluster ''b'' \<notin> set (fst (nuke_clusters fleet 1000 (Some [(''env'', ''prod'')])))
   \<and> CallDeleteCluster ''b'' \<notin> set (fst (nuke fleet 1000 (Some [(''env'', ''prod'')])))"
proof -
  have h: "\<forall>cl \<in> set (listed (describe_clusters fleet)).
       ClusterIdentifier cl = ''b'' \<longrightarrow> (1000::real) \<le> ClusterCreateTime cl"
    by (simp add: fleet_def)
  show ?thesis using h young_clusters_never_deleted[OF h, of "Some [(''env'', ''prod'')]"]
    unfolding list_all_iff by blast
qed



section \<open>The tag listing is consulted only for a non-empty \<^verbatim>\<open>required_tags\<close>\<close>

lemma try_delete_events:
  "ev \<in> set (fst (try_delete d call msg label x)) \<Longrightarrow>
     ev = call x \<or> (\<exists>s. ev = Print s) \<or> (\<exists>e. ev = Reported label x e)"
  by (auto simp: try_delete_def nuke_exceptions_def split: option.splits exc.splits)

lemma list_clusters_item_falsy:
  assumes "rt = None \<or> rt = Some []"
  shows "list_clusters_item c t rt cl rest =
           (if ClusterCreateTime cl < t then Yield (ClusterIdentifier cl) rest else rest)"
  using skip_cluster_falsy[OF assms, of c cl] by (simp add: list_clusters_item_def)

text \<open>
  Claim C9. When \<^verbatim>\<open>required_tags\<close> is \<^verbatim>\<open>None\<close> or the empty dictionary, \<^verbatim>\<open>list_clusters\<close> performs
  no event at all, so it never calls the tag listing; it yields exactly the listed clusters
  created before the threshold; no tag listing call appears in the run of \<^verbatim>\<open>nuke_clusters\<close>;
  and replacing the tag listing operation of the client by any other changes neither the
  generator nor the run.
\<close>

theorem no_tag_lookup_without_required_tags:
  assumes "required_tags = None \<or> required_tags = Some []"
  shows "effects (list_clusters c time_delete required_tags) = []
       \<and> yields (list_clusters c time_delete required_tags) =
           map ClusterIdentifier
             (filter (\<lambda>cl. ClusterCreateTime cl < time_delete) (listed (describe_clusters c)))
       \<and> CallListTagsForResource i \<notin> set (fst (nuke_clusters c time_delete required_tags))
       \<and> list_clusters (c\<lparr>list_tags_for_resource := f\<rparr>) time_delete required_tags
           = list_clusters c time_delete required_tags
       \<and> nuke_clusters (c\<lparr>list_tags_for_resource := f\<rparr>) time_delete required_tags
           = nuke_clusters c time_delete required_tags"
proof -
  note falsy = list_clusters_falsy[OF assms, of c time_delete]
  have no_call: "CallListTagsForResource i \<notin> set (fst (nuke_clusters c time_delete required_tags))"
  proof
    assume "CallListTagsForResource i \<in> set (fst (nuke_clusters c time_delete required_tags))"
    from for_each_events[OF this[unfolded nuke_clusters_def]] falsy(2)
    show False by (auto dest: try_delete_events)
  qed
  have item: "list_clusters_item (c\<lparr>list_tags_for_resource := f\<rparr>) time_delete required_tags
      = list_clusters_item c time_delete required_tags"
    by (intro ext) (simp add: list_clusters_item_falsy[OF assms])
  have gen: "list_clusters (c\<lparr>list_tags_for_resource := f\<rparr>) time_delete required_tags
           = list_clusters c time_delete required_tags"
    by (simp add: list_clusters_def item)
  have "nuke_clusters (c\<lparr>list_tags_for_resource := f\<rparr>) time_delete required_tags
           = nuke_clusters c time_delete required_tags"
    by (simp add: nuke_clusters_def gen)
  with falsy no_call gen show ?thesis by simp
qed

theorem no_tag_lookup_without_required_tags_witness:
  "effects (list_clusters fleet 1000 (Some [])) = []
   \<and> yields (list_clusters fleet 1000 (Some [])) = [''a'', ''c'', ''d'']
   \<and> CallListTagsForResource ''c'' \<notin> set (fst (nuke_clusters fleet 1000 (Some [])))
   \<and> list_clusters (fleet\<lparr>list_tags_for_resource := (\<lambda>i. Inl (OtherException ''unreachable''))\<rparr>) 1000 (Some [])
        = list_clusters fleet 1000 (Some [])
   \<and> nuke_clusters (fleet\<lparr>list_tags_for_resource := (\<lambda>i. Inl (OtherException ''unreachable''))\<rparr>) 1000 (Some [])
        = nuke_clusters fleet 1000 (Some [])"
proof -
  have h: "Some [] = None \<or> Some [] = Some ([] :: (string \<times> string) list)" by simp
  have l: "map ClusterIdentifier
             (filter (\<lambda>cl. ClusterCreateTime cl < 1000) (listed (describe_clusters fleet)))
           = [''a'', ''c'', ''d'']"
    by (simp add: fleet_def)
  show ?thesis
    using no_tag_lookup_without_required_tags[OF h, of fleet 1000 "''c''"
        "\<lambda>i. Inl (OtherException ''unreachable'')"] l
    by simp
qed

section \<open>Failure isolation in the deleting loops\<close>

text \<open>
  Claim C5. In each of the four deleting loops, a delete call that fails with a \<^verbatim>\<open>ClientError\<close>
  does not end the loop: when the delete calls of the yielded identifiers succeed or fail with
  a \<^verbatim>\<open>ClientError\<close>, the loop attempts the delete call for every yielded identifier, in order,
  and the method ends as its generator ends (no exception of its own).
\<close>

theorem delete_failures_are_isolated:
  "((\<forall>x \<in> set (yields (list_clusters c time_delete required_tags)). tolerated (delete_cluster c x)) \<longrightarrow>
      delete_calls (fst (nuke_clusters c time_delete required_tags))
        = map (Pair Clusters) (yields (list_clusters c time_delete required_tags))
      \<and> snd (nuke_clusters c time_delete required_tags) = raised (list_clusters c time_delete required_tags))
   \<and> ((\<forall>x \<in> set (yields (list_snapshots c time_delete)). tolerated (delete_cluster_snapshot c x)) \<longrightarrow>
      delete_calls (fst (nuke_snapshots c time_delete))
        = map (Pair Snapshots) (yields (list_snapshots c time_delete))
      \<and> snd (nuke_snapshots c time_delete) = raised (list_snapshots c time_delete))
   \<and> ((\<forall>x \<in> set (yields (list_subnet c)). tolerated (delete_cluster_subnet_group c x)) \<longrightarrow>
      delete_calls (fst (nuke_subnets c)) = map (Pair SubnetGroups) (yields (list_subnet c))
      \<and> snd (nuke_subnets c) = raised (list_subnet c))
   \<and> ((\<forall>x \<in> set (yields (list_cluster_params c)). tolerated (delete_cluster_parameter_group c x)) \<longrightarrow>
      delete_calls (fst (nuke_param_groups c)) = map (Pair ParameterGroups) (yields (list_cluster_params c))
      \<and> snd (nuke_param_groups c) = raised (list_cluster_params c))"
  using nuke_clusters_calls_all[of c time_delete required_tags] nuke_snapshots_calls_all[of c time_delete]
    nuke_subnets_calls_all[of c] nuke_param_groups_calls_all[of c]
  by blast

theorem delete_failures_are_isolated_witness:
  "delete_cluster fleet ''c'' = Some (ClientError ''InvalidClusterState'')
   \<and> delete_calls (fst (nuke_clusters fleet 1000 None)) = [(Clusters, ''a''), (Clusters, ''c''), (Clusters, ''d'')]
   \<and> snd (nuke_clusters fleet 1000 None) = None
   \<and> delete_cluster_snapshot fleet ''s1'' = Some (ClientError ''InvalidClusterSnapshotState'')
   \<and> delete_calls (fst (nuke_snapshots fleet 1000)) = [(Snapshots, ''s1''), (Snapshots, ''s3'')]
   \<and> delete_cluster_subnet_group fleet ''n1'' = Some (ClientError ''InvalidClusterSubnetGroupState'')
   \<and> delete_calls (fst (nuke_subnets fleet)) = [(SubnetGroups, ''n1''), (SubnetGroups, ''n2'')]
   \<and> delete_cluster_parameter_group fleet ''p1'' = Some (ClientError ''InvalidClusterParameterGroupState'')
   \<and> delete_calls (fst (nuke_param_groups fleet)) = [(ParameterGroups, ''p1''), (ParameterGroups, ''p2'')]"
proof -
  have yc: "yields (list_clusters fleet 1000 None) = [''a'', ''c'', ''d'']"
    by (simp add: list_clusters_def list_clusters_item_def skip_cluster_def fleet_def)
  have rc: "raised (list_clusters fleet 1000 None) = None"
    by (simp add: list_clusters_def list_clusters_item_def skip_cluster_def fleet_def)
  have ys: "yields (list_snapshots fleet 1000) = [''s1'', ''s3'']"
    by (simp add: list_snapshots_def fleet_def)
  have yn: "yields (list_subnet fleet) = [''n1'', ''n2'']"
    by (simp add: list_subnet_def fleet_def)
  have yp: "yields (list_cluster_params fleet) = [''p1'', ''p2'']"
    by (simp add: list_cluster_params_def fleet_def)
  have hc: "\<forall>x \<in> set (yields (list_clusters fleet 1000 None)). tolerated (delete_cluster fleet x)"
    by (simp add: yc) (simp add: fleet_def tolerated_def)
  have hs: "\<forall>x \<in> set (yields (list_snapshots fleet 1000)). tolerated (delete_cluster_snapshot fleet x)"
    by (simp add: ys) (simp add: fleet_def tolerated_def)
  have hn: "\<forall>x \<in> set (yields (list_subnet fleet)). tolerated (delete_cluster_subnet_group fleet x)"
    by (simp add: yn) (simp add: fleet_def tolerated_def)
  have hp: "\<forall>x \<in> set (yields (list_cluster_params fleet)). tolerated (delete_cluster_parameter_group fleet x)"
    by (simp add: yp) (simp add: fleet_def tolerated_def)
  have f: "delete_cluster fleet ''c'' = Some (ClientError ''InvalidClusterState'')"
    "delete_cluster_snapshot fleet ''s1'' = Some (ClientError ''InvalidClusterSnapshotState'')"
    "delete_cluster_subnet_group fleet ''n1'' = Some (ClientError ''InvalidClusterSubnetGroupState'')"
    "delete_cluster_parameter_group fleet ''p1'' = Some (ClientError ''InvalidClusterParameterGroupState'')"
    by (simp_all add: fleet_def)
  show ?thesis
    using delete_failures_are_isolated[of fleet 1000 None] hc hs hn hp
    by (simp add: yc rc ys yn yp f)
qed

section \<open>Order of listing and deleting\<close>






text \<open>What the predicate of the cluster listing is, in terms of the responses of the service.\<close>

lemma all_items_match_iff:
  "all_items_match d kvs \<longleftrightarrow> (\<forall>(k, v) \<in> set kvs. d k = Some v)"
  by (induction d kvs rule: all_items_match.induct) auto

lemma selects_cluster_iff:
  "selects_cluster c t rt cl \<longleftrightarrow>
     ClusterCreateTime cl < t \<and>
     (case rt of
        None \<Rightarrow> True
      | Some kvs \<Rightarrow> kvs = [] \<or>
          (case list_tags_for_resource c (ClusterIdentifier cl) of
             Inr tags \<Rightarrow> \<forall>(k, v) \<in> set kvs. tag_dict tags k = Some v
           | Inl e \<Rightarrow> False))"
  by (auto simp: selects_cluster_def skip_cluster_def cluster_has_required_tags_def all_items_match_iff
      split: option.splits sum.splits exc.splits)




section \<open>The orchestrator\<close>



lemma nuke_returns:
  "snd (nuke c t rt) = None \<longleftrightarrow>
     snd (nuke_clusters c t rt) = None \<and> snd (nuke_snapshots c t) = None
     \<and> snd (nuke_subnets c) = None \<and> snd (nuke_param_groups c) = None"
  by (simp add: nuke_def and_then_returns)










section \<open>Exceptions that leave \<^verbatim>\<open>nuke\<close>\<close>

lemma for_items_raised:
  assumes "\<forall>x \<in> set xs. \<forall>rest. body x rest = emit (E x) (if K x then Yield (F x) rest else rest)
             \<or> (\<exists>e. body x rest = emit (E x) (Raise e))"
    and "raised g \<noteq> None"
  shows "raised (for_items body xs g) \<noteq> None"
  using assms(1)
proof (induction xs)
  case Nil
  then show ?case using assms(2) by simp
next
  case (Cons x xs)
  let ?rest = "for_items body xs g"
  have ih: "raised ?rest \<noteq> None" using Cons by simp
  from Cons.prems have "body x ?rest = emit (E x) (if K x then Yield (F x) ?rest else ?rest)
      \<or> (\<exists>e. body x ?rest = emit (E x) (Raise e))" by simp
  then show ?case using ih by (auto simp: raised_emit)
qed

lemma for_pages_raised:
  assumes "\<forall>x \<in> set (listed p). \<forall>rest. body x rest = emit (E x) (if K x then Yield (F x) rest else rest)
             \<or> (\<exists>e. body x rest = emit (E x) (Raise e))"
    and "page_failure p \<noteq> None"
  shows "raised (for_pages body p) \<noteq> None"
  using assms
proof (induction p)
  case (Page xs p)
  then have "raised (for_pages body p) \<noteq> None" by simp
  with Page.prems show ?case
    using for_items_raised[of xs body E K F "for_pages body p"] by simp
qed auto

lemma list_clusters_page_failure:
  "page_failure (describe_clusters c) \<noteq> None \<Longrightarrow> raised (list_clusters c t rt) \<noteq> None"
  unfolding list_clusters_def
  by (rule for_pages_raised[where E = "tag_events c t rt" and K = "selects_cluster c t rt"
        and F = ClusterIdentifier])
     (simp_all add: list_clusters_item_shape)

text \<open>
  Claim C6, as stated, fails: a failure of a page request while listing clusters leaves
  \<^verbatim>\<open>nuke\<close>, and the snapshots, subnet groups and parameter groups, which their handlers would
  delete, are not handled at all.
\<close>

theorem listing_failure_stops_later_kinds:
  "snd (nuke outage 1000 None) = Some (ClientError ''Throttling'')
   \<and> delete_calls (fst (nuke outage 1000 None)) = [(Clusters, ''a'')]
   \<and> nuke_snapshots outage 1000 =
        ([CallDeleteClusterSnapshot ''s1'', Print ''Nuke redshift snapshot s1''], None)
   \<and> nuke_subnets outage =
        ([CallDeleteClusterSubnetGroup ''n1'', Print ''Nuke redshift subnet n1''], None)
   \<and> nuke_param_groups outage =
        ([CallDeleteClusterParameterGroup ''p1'', Print ''Nuke redshift param p1''], None)"
  by (simp add: run_defs outage_def)

text \<open>
  Claim C6, amended. A delete call that fails with a \<^verbatim>\<open>ClientError\<close> never makes \<^verbatim>\<open>nuke\<close> raise:
  when the four listings complete, no tag listing raises anything but a \<^verbatim>\<open>ClientError\<close> and
  every delete call succeeds or fails with a \<^verbatim>\<open>ClientError\<close>, \<^verbatim>\<open>nuke\<close> returns. A failure of a
  page request, for any of the four kinds, leaves the handler of that kind and leaves \<^verbatim>\<open>nuke\<close>.
  An exception that leaves any of the four handlers leaves \<^verbatim>\<open>nuke\<close> with it, and ends the run
  there: the trace of \<^verbatim>\<open>nuke\<close> is the traces of the handlers up to and including that one, its
  exception is that handler's, and the handlers of the later kinds are not run.
\<close>

theorem exceptions_end_nuke:
  "(page_failure (describe_clusters c) = None
      \<and> page_failure (describe_cluster_snapshots c) = None
      \<and> page_failure (describe_cluster_subnet_groups c) = None
      \<and> page_failure (describe_cluster_parameter_groups c) = None
      \<and> (\<forall>cl \<in> set (listed (describe_clusters c)).
            ClusterCreateTime cl < older_than_seconds \<longrightarrow> \<not> tag_fetch_raises c cl)
      \<and> (\<forall>x \<in> set (yields (list_clusters c older_than_seconds required_tags)). tolerated (delete_cluster c x))
      \<and> (\<forall>x \<in> set (yields (list_snapshots c older_than_seconds)). tolerated (delete_cluster_snapshot c x))
      \<and> (\<forall>x \<in> set (yields (list_subnet c)). tolerated (delete_cluster_subnet_group c x))
      \<and> (\<forall>x \<in> set (yields (list_cluster_params c)). tolerated (delete_cluster_parameter_group c x))
      \<longrightarrow> snd (nuke c older_than_seconds required_tags) = None)
   \<and> (page_failure (describe_clusters c) \<noteq> None \<longrightarrow>
        snd (nuke_clusters c older_than_seconds required_tags) \<noteq> None)
   \<and> (page_failure (describe_cluster_snapshots c) \<noteq> None \<longrightarrow>
        snd (nuke_snapshots c older_than_seconds) \<noteq> None)
   \<and> (page_failure (describe_cluster_subnet_groups c) \<noteq> None \<longrightarrow> snd (nuke_subnets c) \<noteq> None)
   \<and> (page_failure (describe_cluster_parameter_groups c) \<noteq> None \<longrightarrow> snd (nuke_param_groups c) \<noteq> None)
   \<and> (snd (nuke_clusters c older_than_seconds required_tags) \<noteq> None \<longrightarrow>
        nuke c older_than_seconds required_tags = nuke_clusters c older_than_seconds required_tags)
   \<and> (snd (nuke_clusters c older_than_seconds required_tags) = None
        \<and> snd (nuke_snapshots c older_than_seconds) \<noteq> None \<longrightarrow>
        nuke c older_than_seconds required_tags =
          (fst (nuke_clusters c older_than_seconds required_tags) @ fst (nuke_snapshots c older_than_seconds),
           snd (nuke_snapshots c older_than_seconds)))
   \<and> (snd (nuke_clusters c older_than_seconds required_tags) = None
        \<and> snd (nuke_snapshots c older_than_seconds) = None \<and> snd (nuke_subnets c) \<noteq> None \<longrightarrow>
        nuke c older_than_seconds required_tags =
          (fst (nuke_clusters c older_than_seconds required_tags) @ fst (nuke_snapshots c older_than_seconds)
             @ fst (nuke_subnets c),
           snd (nuke_subnets c)))
   \<and> (snd (nuke_clusters c older_than_seconds required_tags) = None
        \<and> snd (nuke_snapshots c older_than_seconds) = None \<and> snd (nuke_subnets c) = None
        \<and> snd (nuke_param_groups c) \<noteq> None \<longrightarrow>
        nuke c older_than_seconds required_tags =
          (fst (nuke_clusters c older_than_seconds required_tags) @ fst (nuke_snapshots c older_than_seconds)
             @ fst (nuke_subnets c) @ fst (nuke_param_groups c),
           snd (nuke_param_groups c)))
   \<and> (snd (nuke_clusters c older_than_seconds required_tags) \<noteq> None
        \<or> snd (nuke_snapshots c older_than_seconds) \<noteq> None
        \<or> snd (nuke_subnets c) \<noteq> None
        \<or> snd (nuke_param_groups c) \<noteq> None \<longrightarrow>
        snd (nuke c older_than_seconds required_tags) \<noteq> None)
   \<and> (page_failure (describe_clusters c) \<noteq> None
        \<or> page_failure (describe_cluster_snapshots c) \<noteq> None
        \<or> page_failure (describe_cluster_subnet_groups c) \<noteq> None
        \<or> page_failure (describe_cluster_parameter_groups c) \<noteq> None \<longrightarrow>
        snd (nuke c older_than_seconds required_tags) \<noteq> None)"
proof -
  let ?nc = "nuke_clusters c older_than_seconds required_tags"
  let ?ns = "nuke_snapshots c older_than_seconds"
  have returns: "snd (nuke c older_than_seconds required_tags) = None"
    if pf: "page_failure (describe_clusters c) = None"
      "page_failure (describe_cluster_snapshots c) = None"
      "page_failure (describe_cluster_subnet_groups c) = None"
      "page_failure (describe_cluster_parameter_groups c) = None"
    and tags: "\<forall>cl \<in> set (listed (describe_clusters c)).
            ClusterCreateTime cl < older_than_seconds \<longrightarrow> \<not> tag_fetch_raises c cl"
    and tol: "\<forall>x \<in> set (yields (list_clusters c older_than_seconds required_tags)). tolerated (delete_cluster c x)"
      "\<forall>x \<in> set (yields (list_snapshots c older_than_seconds)). tolerated (delete_cluster_snapshot c x)"
      "\<forall>x \<in> set (yields (list_subnet c)). tolerated (delete_cluster_subnet_group c x)"
      "\<forall>x \<in> set (yields (list_cluster_params c)). tolerated (delete_cluster_parameter_group c x)"
  proof -
    have "\<forall>cl \<in> set (listed (describe_clusters c)). ClusterCreateTime cl < older_than_seconds \<longrightarrow>
        (\<exists>b. snd (skip_cluster c cl required_tags) = Inr b)"
      using tags skip_cluster_no_raise by blast
    from list_clusters_regular(3)[OF this]
    have "raised (list_clusters c older_than_seconds required_tags) = None" by (simp add: pf)
    then have "snd ?nc = None" using nuke_clusters_calls_all[OF tol(1)] by simp
    moreover have "snd ?ns = None"
      using nuke_snapshots_calls_all[OF tol(2)] by (simp add: list_snapshots_regular pf)
    moreover have "snd (nuke_subnets c) = None"
      using nuke_subnets_calls_all[OF tol(3)] by (simp add: list_subnet_regular pf)
    moreover have "snd (nuke_param_groups c) = None"
      using nuke_param_groups_calls_all[OF tol(4)] by (simp add: list_cluster_params_regular pf)
    ultimately show ?thesis by (simp add: nuke_returns)
  qed
  have fc: "page_failure (describe_clusters c) \<noteq> None \<Longrightarrow> snd ?nc \<noteq> None"
    unfolding nuke_clusters_def by (intro for_each_raised list_clusters_page_failure)
  have fs: "page_failure (describe_cluster_snapshots c) \<noteq> None \<Longrightarrow> snd ?ns \<noteq> None"
    unfolding nuke_snapshots_def by (intro for_each_raised) (simp add: list_snapshots_regular)
  have fn: "page_failure (describe_cluster_subnet_groups c) \<noteq> None \<Longrightarrow> snd (nuke_subnets c) \<noteq> None"
    unfolding nuke_subnets_def by (intro for_each_raised) (simp add: list_subnet_regular)
  have fp: "page_failure (describe_cluster_parameter_groups c) \<noteq> None \<Longrightarrow> snd (nuke_param_groups c) \<noteq> None"
    unfolding nuke_param_groups_def by (intro for_each_raised) (simp add: list_cluster_params_regular)
  have a1: "snd ?nc \<noteq> None \<Longrightarrow> nuke c older_than_seconds required_tags = ?nc"
    by (simp add: nuke_def and_then_aborts)
  have a2: "snd ?nc = None \<Longrightarrow> snd ?ns \<noteq> None \<Longrightarrow>
      nuke c older_than_seconds required_tags = (fst ?nc @ fst ?ns, snd ?ns)"
    by (cases ?nc) (simp add: nuke_def and_then_aborts, simp add: and_then_def)
  have a3: "snd ?nc = None \<Longrightarrow> snd ?ns = None \<Longrightarrow> snd (nuke_subnets c) \<noteq> None \<Longrightarrow>
      nuke c older_than_seconds required_tags =
        (fst ?nc @ fst ?ns @ fst (nuke_subnets c), snd (nuke_subnets c))"
    by (cases ?nc; cases ?ns) (simp add: nuke_def and_then_aborts, simp add: and_then_def)
  have o2: "page_failure (describe_clusters c) \<noteq> None \<longrightarrow> snd ?nc \<noteq> None"
    using fc by (rule impI)
  have o3: "page_failure (describe_cluster_snapshots c) \<noteq> None \<longrightarrow> snd ?ns \<noteq> None"
    using fs by (rule impI)
  have o4: "page_failure (describe_cluster_subnet_groups c) \<noteq> None \<longrightarrow> snd (nuke_subnets c) \<noteq> None"
    using fn by (rule impI)
  have o5: "page_failure (describe_cluster_parameter_groups c) \<noteq> None \<longrightarrow> snd (nuke_param_groups c) \<noteq> None"
    using fp by (rule impI)
  have o6: "snd ?nc \<noteq> None \<longrightarrow> nuke c older_than_seconds required_tags = ?nc"
    using a1 by (rule impI)
  have o7: "snd ?nc = None \<and> snd ?ns \<noteq> None \<longrightarrow>
      nuke c older_than_seconds required_tags = (fst ?nc @ fst ?ns, snd ?ns)"
    using a2 by simp
  have o8: "snd ?nc = None \<and> snd ?ns = None \<and> snd (nuke_subnets c) \<noteq> None \<longrightarrow>
      nuke c older_than_seconds required_tags =
        (fst ?nc @ fst ?ns @ fst (nuke_subnets c), snd (nuke_subnets c))"
    using a3 by simp
  have o9: "snd ?nc = None \<and> snd ?ns = None \<and> snd (nuke_subnets c) = None
      \<and> snd (nuke_param_groups c) \<noteq> None \<longrightarrow>
      nuke c older_than_seconds required_tags =
        (fst ?nc @ fst ?ns @ fst (nuke_subnets c) @ fst (nuke_param_groups c), snd (nuke_param_groups c))"
    by (cases ?nc; cases ?ns; cases "nuke_subnets c") (simp add: nuke_def and_then_def)
  have o10: "snd ?nc \<noteq> None \<or> snd ?ns \<noteq> None \<or> snd (nuke_subnets c) \<noteq> None
      \<or> snd (nuke_param_groups c) \<noteq> None \<longrightarrow> snd (nuke c older_than_seconds required_tags) \<noteq> None"
    by (auto simp: nuke_returns)
  have o11: "page_failure (describe_clusters c) \<noteq> None
      \<or> page_failure (describe_cluster_snapshots c) \<noteq> None
      \<or> page_failure (describe_cluster_subnet_groups c) \<noteq> None
      \<or> page_failure (describe_cluster_parameter_groups c) \<noteq> None \<longrightarrow>
      snd (nuke c older_than_seconds required_tags) \<noteq> None"
    using o2 o3 o4 o5 o10 by blast
  have o1: "page_failure (describe_clusters c) = None
      \<and> page_failure (describe_cluster_snapshots c) = None
      \<and> page_failure (describe_cluster_subnet_groups c) = None
      \<and> page_failure (describe_cluster_parameter_groups c) = None
      \<and> (\<forall>cl \<in> set (listed (describe_clusters c)).
            ClusterCreateTime cl < older_than_seconds \<longrightarrow> \<not> tag_fetch_raises c cl)
      \<and> (\<forall>x \<in> set (yields (list_clusters c older_than_seconds required_tags)). tolerated (delete_cluster c x))
      \<and> (\<forall>x \<in> set (yields (list_snapshots c older_than_seconds)). tolerated (delete_cluster_snapshot c x))
      \<and> (\<forall>x \<in> set (yields (list_subnet c)). tolerated (delete_cluster_subnet_group c x))
      \<and> (\<forall>x \<in> set (yields (list_cluster_params c)). tolerated (delete_cluster_parameter_group c x))
      \<longrightarrow> snd (nuke c older_than_seconds required_tags) = None"
    using returns by blast
  show ?thesis
    using o1 o2 o3 o4 o5 o6 o7 o8 o9 o10 o11 by (intro conjI)
qed


theorem exceptions_end_nuke_witness:
  "snd (nuke fleet 1000 None) = None
   \<and> page_failure (describe_clusters outage) = Some (ClientError ''Throttling'')
   \<and> snd (nuke_clusters outage 1000 None) \<noteq> None
   \<and> nuke outage 1000 None = nuke_clusters outage 1000 None
   \<and> snd (nuke_snapshots (fleet\<lparr>describe_cluster_snapshots := PageError (ClientError ''Throttling'')\<rparr>) 1000) \<noteq> None
   \<and> nuke (fleet\<lparr>describe_cluster_snapshots := PageError (ClientError ''Throttling'')\<rparr>) 1000 None =
       (fst (nuke_clusters (fleet\<lparr>describe_cluster_snapshots := PageError (ClientError ''Throttling'')\<rparr>) 1000 None)
          @ fst (nuke_snapshots (fleet\<lparr>describe_cluster_snapshots := PageError (ClientError ''Throttling'')\<rparr>) 1000),
        snd (nuke_snapshots (fleet\<lparr>describe_cluster_snapshots := PageError (ClientError ''Throttling'')\<rparr>) 1000))
   \<and> snd (nuke_subnets (fleet\<lparr>describe_cluster_subnet_groups := PageError (ClientError ''Throttling'')\<rparr>)) \<noteq> None
   \<and> snd (nuke (fleet\<lparr>describe_cluster_subnet_groups := PageError (ClientError ''Throttling'')\<rparr>) 1000 None)
       = snd (nuke_subnets (fleet\<lparr>describe_cluster_subnet_groups := PageError (ClientError ''Throttling'')\<rparr>))
   \<and> snd (nuke_param_groups (fleet\<lparr>describe_cluster_parameter_groups := PageError (ClientError ''Throttling'')\<rparr>)) \<noteq> None
   \<and> snd (nuke (fleet\<lparr>describe_cluster_parameter_groups := PageError (ClientError ''Throttling'')\<rparr>) 1000 None)
       = snd (nuke_param_groups (fleet\<lparr>describe_cluster_parameter_groups := PageError (ClientError ''Throttling'')\<rparr>))
   \<and> snd (nuke (fleet\<lparr>describe_cluster_parameter_groups := PageError (ClientError ''Throttling'')\<rparr>) 1000 None)
       \<noteq> None
   \<and> snd (nuke outage 1000 None) \<noteq> None"
proof -
  let ?s = "fleet\<lparr>describe_cluster_snapshots := PageError (ClientError ''Throttling'')\<rparr>"
  let ?n = "fleet\<lparr>describe_cluster_subnet_groups := PageError (ClientError ''Throttling'')\<rparr>"
  let ?p = "fleet\<lparr>describe_cluster_parameter_groups := PageError (ClientError ''Throttling'')\<rparr>"
  have pf: "page_failure (describe_clusters fleet) = None"
    "page_failure (describe_cluster_snapshots fleet) = None"
    "page_failure (describe_cluster_subnet_groups fleet) = None"
    "page_failure (describe_cluster_parameter_groups fleet) = None"
    by (simp_all add: fleet_def)
  have tags: "\<forall>cl \<in> set (listed (describe_clusters fleet)).
            ClusterCreateTime cl < 1000 \<longrightarrow> \<not> tag_fetch_raises fleet cl"
    by (simp add: fleet_def tag_fetch_raises_def)
  have yc: "yields (list_clusters fleet 1000 None) = [''a'', ''c'', ''d'']"
    by (simp add: list_clusters_def list_clusters_item_def skip_cluster_def fleet_def)
  have ys: "yields (list_snapshots fleet 1000) = [''s1'', ''s3'']"
    by (simp add: list_snapshots_def fleet_def)
  have yn: "yields (list_subnet fleet) = [''n1'', ''n2'']"
    by (simp add: list_subnet_def fleet_def)
  have yp: "yields (list_cluster_params fleet) = [''p1'', ''p2'']"
    by (simp add: list_cluster_params_def fleet_def)
  have tol: "\<forall>x \<in> set (yields (list_clusters fleet 1000 None)). tolerated (delete_cluster fleet x)"
    "\<forall>x \<in> set (yields (list_snapshots fleet 1000)). tolerated (delete_cluster_snapshot fleet x)"
    "\<forall>x \<in> set (yields (list_subnet fleet)). tolerated (delete_cluster_subnet_group fleet x)"
    "\<forall>x \<in> set (yields (list_cluster_params fleet)). tolerated (delete_cluster_parameter_group fleet x)"
    unfolding yc ys yn yp by (simp_all add: fleet_def tolerated_def)
  have 1: "snd (nuke fleet 1000 None) = None"
    by (rule exceptions_end_nuke[of fleet 1000 None, THEN conjunct1, THEN mp]) (intro conjI pf tags tol)
  have po: "page_failure (describe_clusters outage) = Some (ClientError ''Throttling'')"
    by (simp add: outage_def)
  then have po': "page_failure (describe_clusters outage) \<noteq> None"
    by simp
  have 2: "snd (nuke_clusters outage 1000 None) \<noteq> None"
    using po' by (rule exceptions_end_nuke[of outage 1000 None, THEN conjunct2, THEN conjunct1, THEN mp])
  then have w2b: "nuke outage 1000 None = nuke_clusters outage 1000 None"
    by (rule exceptions_end_nuke[of outage 1000 None, THEN conjunct2, THEN conjunct2, THEN conjunct2, THEN conjunct2, THEN conjunct2, THEN conjunct1, THEN mp])
  have cs: "snd (nuke_clusters ?s 1000 None) = None"
    by (simp add: run_defs fleet_def)
  have "page_failure (describe_cluster_snapshots ?s) \<noteq> None"
    by simp
  then have 3: "snd (nuke_snapshots ?s 1000) \<noteq> None"
    by (rule exceptions_end_nuke[of "fleet\<lparr>describe_cluster_snapshots := PageError (ClientError ''Throttling'')\<rparr>" 1000 None, THEN conjunct2, THEN conjunct2, THEN conjunct1, THEN mp])
  have w3b: "nuke ?s 1000 None =
          (fst (nuke_clusters ?s 1000 None) @ fst (nuke_snapshots ?s 1000), snd (nuke_snapshots ?s 1000))"
    by (rule exceptions_end_nuke[of "fleet\<lparr>describe_cluster_snapshots := PageError (ClientError ''Throttling'')\<rparr>" 1000 None, THEN conjunct2, THEN conjunct2, THEN conjunct2, THEN conjunct2, THEN conjunct2, THEN conjunct2, THEN conjunct1, THEN mp]) (intro conjI cs 3)
  have cn: "snd (nuke_clusters ?n 1000 None) = None" "snd (nuke_snapshots ?n 1000) = None"
    by (simp_all add: run_defs fleet_def)
  have "page_failure (describe_cluster_subnet_groups ?n) \<noteq> None"
    by simp
  then have 4: "snd (nuke_subnets ?n) \<noteq> None"
    by (rule exceptions_end_nuke[of "fleet\<lparr>describe_cluster_subnet_groups := PageError (ClientError ''Throttling'')\<rparr>" 1000 None, THEN conjunct2, THEN conjunct2, THEN conjunct2, THEN conjunct1, THEN mp])
  have "nuke ?n 1000 None =
          (fst (nuke_clusters ?n 1000 None) @ fst (nuke_snapshots ?n 1000) @ fst (nuke_subnets ?n),
           snd (nuke_subnets ?n))"
    by (rule exceptions_end_nuke[of "fleet\<lparr>describe_cluster_subnet_groups := PageError (ClientError ''Throttling'')\<rparr>" 1000 None, THEN conjunct2, THEN conjunct2, THEN conjunct2, THEN conjunct2, THEN conjunct2, THEN conjunct2, THEN conjunct2, THEN conjunct1, THEN mp]) (intro conjI cn 4)
  then have w4b: "snd (nuke ?n 1000 None) = snd (nuke_subnets ?n)"
    by simp
  have cp: "snd (nuke_clusters ?p 1000 None) = None" "snd (nuke_snapshots ?p 1000) = None"
    "snd (nuke_subnets ?p) = None"
    by (simp_all add: run_defs fleet_def)
  have pp: "page_failure (describe_cluster_parameter_groups ?p) \<noteq> None"
    by simp
  then have 5: "snd (nuke_param_groups ?p) \<noteq> None"
    by (rule exceptions_end_nuke[of "fleet\<lparr>describe_cluster_parameter_groups := PageError (ClientError ''Throttling'')\<rparr>" 1000 None, THEN conjunct2, THEN conjunct2, THEN conjunct2, THEN conjunct2, THEN conjunct1, THEN mp])
  have "nuke ?p 1000 None =
      (fst (nuke_clusters ?p 1000 None) @ fst (nuke_snapshots ?p 1000) @ fst (nuke_subnets ?p)
         @ fst (nuke_param_groups ?p),
       snd (nuke_param_groups ?p))"
    by (rule exceptions_end_nuke[of "fleet\<lparr>describe_cluster_parameter_groups := PageError (ClientError ''Throttling'')\<rparr>" 1000 None, THEN conjunct2, THEN conjunct2, THEN conjunct2, THEN conjunct2, THEN conjunct2, THEN conjunct2, THEN conjunct2, THEN conjunct2, THEN conjunct1, THEN mp]) (intro conjI cp 5)
  then have 6: "snd (nuke ?p 1000 None) = snd (nuke_param_groups ?p)"
    by simp
  have w6b: "snd (nuke ?p 1000 None) \<noteq> None"
    by (rule exceptions_end_nuke[of "fleet\<lparr>describe_cluster_parameter_groups := PageError (ClientError ''Throttling'')\<rparr>" 1000 None, THEN conjunct2, THEN conjunct2, THEN conjunct2, THEN conjunct2, THEN conjunct2, THEN conjunct2, THEN conjunct2, THEN conjunct2, THEN conjunct2, THEN conjunct2, THEN mp]) (intro disjI2 pp)
  have 7: "snd (nuke outage 1000 None) \<noteq> None"
    by (rule exceptions_end_nuke[of outage 1000 None, THEN conjunct2, THEN conjunct2, THEN conjunct2, THEN conjunct2, THEN conjunct2, THEN conjunct2, THEN conjunct2, THEN conjunct2, THEN conjunct2, THEN conjunct2, THEN mp]) (intro disjI1 po')
  show ?thesis
    by (intro conjI 1 po 2 w2b 3 w3b 4 w4b 5 6 w6b 7)
qed

section \<open>The tag condition of the cluster listing\<close>

text \<open>
  Claim C1 says that a cluster older than the threshold is deleted exactly when it lacks one
  of the required tags, as the docstrings of \<^verbatim>\<open>nuke_clusters\<close> and \<^verbatim>\<open>list_clusters\<close> do
  (``not matching the required tags'', ``to exclude from deletion''). The condition in
  \<^verbatim>\<open>list_clusters\<close> skips a cluster when \<^verbatim>\<open>_cluster_has_required_tags\<close> is false, so the module
  does the opposite. On the end-to-end example of the specification with
  \<^verbatim>\<open>required_tags = {"env": "prod"}\<close>, the cluster \<open>a\<close> that carries the tag is the one yielded
  and deleted, and \<open>b\<close> and \<open>c\<close> are kept.
\<close>

theorem tagged_cluster_is_the_one_deleted:
  "yields (list_clusters example_8 1000 (Some [(''env'', ''prod'')])) = [''a'']
   \<and> nuke_clusters example_8 1000 (Some [(''env'', ''prod'')]) =
       ([CallListTagsForResource ''a'', CallDeleteCluster ''a'', Print ''Nuke redshift cluster a'',
         CallListTagsForResource ''b'', CallListTagsForResource ''c''], None)
   \<and> deleted Clusters (fst (nuke example_8 1000 (Some [(''env'', ''prod'')]))) = [''a'']"
  by (simp add: run_defs example_8_def deleted_def)

text \<open>
  Claim C2 says that a cluster whose tag listing fails with a \<^verbatim>\<open>ClientError\<close> is deleted. In
  the module \<^verbatim>\<open>_cluster_has_required_tags\<close> then returns \<^verbatim>\<open>False\<close>, and by the same condition of
  \<^verbatim>\<open>list_clusters\<close> the cluster is skipped: in the example service the tag listing of \<open>c\<close>
  fails, \<open>c\<close> is neither yielded nor deleted, and the listing goes on with \<open>d\<close>.
\<close>

theorem cluster_with_failed_tag_listing_is_kept:
  "list_tags_for_resource fleet ''c'' = Inl (ClientError ''Throttling'')
   \<and> yields (list_clusters fleet 1000 (Some [(''env'', ''prod'')])) = [''a'']
   \<and> nuke_clusters fleet 1000 (Some [(''env'', ''prod'')]) =
       ([CallListTagsForResource ''a'', CallDeleteCluster ''a'', Print ''Nuke redshift cluster a'',
         CallListTagsForResource ''c'',
         Print ''Failed to get tags for Redshift cluster c: Throttling'',
         CallListTagsForResource ''d''], None)"
  by (simp add: run_defs fleet_def)

end
